theory Spec2Isabelle
  imports Main "HOL-Library.Sublist" "HOL-Library.Multiset"
begin

section \<open>Data model (src/types.ts)\<close>

text \<open>
  \<^verbatim>\<open>ThemeType = 'fill' | 'outline' | 'twotone'\<close>. An \<^verbatim>\<open>AbstractNode\<close> has a tag, an
  attribute object and an array of children. The attribute object is kept as an
  association list in the object's own key order (the order \<^verbatim>\<open>JSON.stringify\<close> walks);
  a key that is not in the list is an absent attribute. An \<^verbatim>\<open>IconDefinition\<close> is an
  \<^verbatim>\<open>AbstractNode\<close> with the two further keys \<^verbatim>\<open>name\<close> and \<^verbatim>\<open>theme\<close>; its three inherited
  keys are kept together in the field \<open>node\<close>.
\<close>

datatype ThemeType = Fill | Outline | Twotone

fun theme_str :: "ThemeType \<Rightarrow> string" where
  "theme_str Fill = ''fill''"
| "theme_str Outline = ''outline''"
| "theme_str Twotone = ''twotone''"

datatype AbstractNode =
  AbstractNode (tag: string) (attrs: "(string \<times> string) list") (children: "AbstractNode list")

record IconDefinition =
  name :: string
  theme :: ThemeType
  node :: AbstractNode

record Manifest =
  fill :: "string list"
  outline :: "string list"
  twotone :: "string list"

record WriteFileMetaData =
  path :: string
  content :: string

text \<open>\<^verbatim>\<open>BuildTimeIconMetaData = { identifier, icon }\<close> and \<^verbatim>\<open>NameAndPath = { kebabCaseName, identifier }\<close>.\<close>

record BuildTimeIconMetaData =
  "identifier" :: string
  icon :: IconDefinition

record NameAndPath =
  kebabCaseName :: string
  np_identifier :: string

subsection \<open>Attribute objects\<close>

text \<open>
  \<open>attr_get\<close> reads a property (\<open>None\<close> is JavaScript's \<^verbatim>\<open>undefined\<close>); \<open>attr_set\<close> is the
  assignment \<^verbatim>\<open>o[k] = v\<close>: an existing key keeps its place, a new key goes last.
\<close>

fun attr_get :: "(string \<times> string) list \<Rightarrow> string \<Rightarrow> string option" where
  "attr_get [] k = None"
| "attr_get ((k', v) # kvs) k = (if k' = k then Some v else attr_get kvs k)"

fun attr_set :: "string \<Rightarrow> string \<Rightarrow> (string \<times> string) list \<Rightarrow> (string \<times> string) list" where
  "attr_set k v [] = [(k, v)]"
| "attr_set k v ((k', v') # kvs) = (if k' = k then (k, v) # kvs else (k', v') # attr_set k v kvs)"

section \<open>Theme fixup (the head of the \<^verbatim>\<open>map\<close> callback of \<^verbatim>\<open>iconFiles$\<close>)\<close>

text \<open>
  \<^verbatim>\<open>pathElment.attrs.fill = pathElment.attrs.fill || '#333'\<close>: the operator \<^verbatim>\<open>||\<close> yields its
  right operand when the left one is falsy, which for an attribute is \<^verbatim>\<open>undefined\<close> or the
  empty string.
\<close>

definition fill_or_default :: "(string \<times> string) list \<Rightarrow> string" where
  "fill_or_default kvs =
     (case attr_get kvs ''fill'' of
        None \<Rightarrow> ''#333''
      | Some v \<Rightarrow> (if v = [] then ''#333'' else v))"

definition fix_child :: "AbstractNode \<Rightarrow> AbstractNode" where
  "fix_child pathElment =
     AbstractNode (tag pathElment)
       (attr_set ''fill'' (fill_or_default (attrs pathElment)) (attrs pathElment))
       (children pathElment)"

definition theme_fixup :: "IconDefinition \<Rightarrow> IconDefinition" where
  "theme_fixup ic =
     (if theme ic = Twotone
      then ic\<lparr>node := AbstractNode (tag (node ic)) (attrs (node ic))
                          (map fix_child (children (node ic)))\<rparr>
      else ic)"

section \<open>Text operations of the emitters\<close>

text \<open>
  Strings are sequences of bytes (UTF-8). \<open>replace_all p r\<close> is
  \<^verbatim>\<open>String.prototype.replace\<close> with a global regular expression that is the literal text \<open>p\<close>
  and a replacement \<open>r\<close> without \<^verbatim>\<open>$\<close>: the text is scanned from the left, a match is replaced
  and the scan goes on behind it. The regular expressions of the source are not empty.
\<close>

fun replace_all :: "string \<Rightarrow> string \<Rightarrow> string \<Rightarrow> string" where
  "replace_all p r [] = []"
| "replace_all p r (c # cs) =
     (if p \<noteq> [] \<and> prefix p (c # cs)
      then r @ replace_all p r (drop (length p) (c # cs))
      else c # replace_all p r cs)"

text \<open>
  \<open>js_replace pat repl\<close> is \<^verbatim>\<open>String.prototype.replace\<close> with a string pattern: only the
  first occurrence is replaced, and in the replacement text \<^verbatim>\<open>$$\<close> stands for a dollar sign,
  \<^verbatim>\<open>$&\<close> for the match, \<^verbatim>\<open>$`\<close> for the text before it and \<^verbatim>\<open>$'\<close> for the text behind it (a
  string pattern has no capture groups, so every other \<^verbatim>\<open>$\<close> stays).
\<close>

fun split_at_first :: "string \<Rightarrow> string \<Rightarrow> string \<Rightarrow> (string \<times> string) option" where
  "split_at_first pat pre [] = (if pat = [] then Some (pre, []) else None)"
| "split_at_first pat pre (c # cs) =
     (if prefix pat (c # cs) then Some (pre, drop (length pat) (c # cs))
      else split_at_first pat (pre @ [c]) cs)"

fun get_substitution :: "string \<Rightarrow> string \<Rightarrow> string \<Rightarrow> string \<Rightarrow> string" where
  "get_substitution m b a [] = []"
| "get_substitution m b a [c] = [c]"
| "get_substitution m b a (c # d # r) =
     (if c = CHR ''$'' \<and> d = CHR ''$'' then CHR ''$'' # get_substitution m b a r
      else if c = CHR ''$'' \<and> d = CHR ''&'' then m @ get_substitution m b a r
      else if c = CHR ''$'' \<and> d = CHR 0x60 then b @ get_substitution m b a r
      else if c = CHR ''$'' \<and> d = CHR 0x27 then a @ get_substitution m b a r
      else c # get_substitution m b a (d # r))"

definition js_replace :: "string \<Rightarrow> string \<Rightarrow> string \<Rightarrow> string" where
  "js_replace pat repl s =
     (case split_at_first pat [] s of
        None \<Rightarrow> s
      | Some (b, a) \<Rightarrow> b @ get_substitution pat b a repl @ a)"

fun join :: "string \<Rightarrow> string list \<Rightarrow> string" where
  "join sep [] = []"
| "join sep [x] = x"
| "join sep (x # y # xs) = x @ sep @ join sep (y # xs)"

subsection \<open>\<^verbatim>\<open>JSON.stringify\<close>\<close>

definition hex_digit :: "nat \<Rightarrow> char" where
  "hex_digit n = ''0123456789abcdef'' ! (n mod 16)"

definition json_escape :: "char \<Rightarrow> string" where
  \<open>json_escape c =
     (if c = CHR 0x22 then [CHR 0x5C, CHR 0x22]
      else if c = CHR 0x5C then [CHR 0x5C, CHR 0x5C]
      else if c = CHR 0x08 then [CHR 0x5C, CHR ''b'']
      else if c = CHR 0x0C then [CHR 0x5C, CHR ''f'']
      else if c = CHR 0x0A then [CHR 0x5C, CHR ''n'']
      else if c = CHR 0x0D then [CHR 0x5C, CHR ''r'']
      else if c = CHR 0x09 then [CHR 0x5C, CHR ''t'']
      else if of_char c < (0x20 :: nat)
        then [CHR 0x5C, CHR ''u'', CHR ''0'', CHR ''0'',
              hex_digit (of_char c div 16), hex_digit (of_char c)]
      else [c])\<close>

definition json_quote :: "string \<Rightarrow> string" where
  \<open>json_quote s = ''"'' @ concat (map json_escape s) @ ''"''\<close>

text \<open>
  The serializers take the rendering \<open>q\<close> of a string as a parameter; \<^verbatim>\<open>JSON.stringify\<close> is
  the instance \<open>q = json_quote\<close>. The keys of a node are written in the order of the
  interface \<^verbatim>\<open>AbstractNode\<close> (\<^verbatim>\<open>generateAbstractTree\<close>, which builds the object, is not
  part of the sources at hand); \<^verbatim>\<open>name\<close> and \<^verbatim>\<open>theme\<close> come first in the object literal of
  the icon.
\<close>

definition ser_attr :: "(string \<Rightarrow> string) \<Rightarrow> string \<times> string \<Rightarrow> string" where
  \<open>ser_attr q kv = q (fst kv) @ '':'' @ q (snd kv)\<close>

definition ser_attrs :: "(string \<Rightarrow> string) \<Rightarrow> (string \<times> string) list \<Rightarrow> string" where
  \<open>ser_attrs q kvs = ''{'' @ join '','' (map (ser_attr q) kvs) @ ''}''\<close>

fun ser_node :: "(string \<Rightarrow> string) \<Rightarrow> AbstractNode \<Rightarrow> string" where
  \<open>ser_node q (AbstractNode t kvs cs) =
     ''{"tag":'' @ q t @ '',"attrs":'' @ ser_attrs q kvs @
     '',"children":['' @ join '','' (map (ser_node q) cs) @ '']}''\<close>

definition ser_icon :: "(string \<Rightarrow> string) \<Rightarrow> IconDefinition \<Rightarrow> string" where
  \<open>ser_icon q ic =
     ''{"name":'' @ q (name ic) @ '',"theme":'' @ q (theme_str (theme ic)) @
     '',"tag":'' @ q (tag (node ic)) @ '',"attrs":'' @ ser_attrs q (attrs (node ic)) @
     '',"children":['' @ join '','' (map (ser_node q) (children (node ic))) @ '']}''\<close>

definition stringify_icon :: "IconDefinition \<Rightarrow> string" where
  "stringify_icon = ser_icon json_quote"

definition stringify_names :: "string list \<Rightarrow> string" where
  \<open>stringify_names ns = ''['' @ join '','' (map json_quote ns) @ '']''\<close>

definition stringify_manifest :: "Manifest \<Rightarrow> string" where
  \<open>stringify_manifest m =
     ''{"fill":'' @ stringify_names (fill m) @ '',"outline":'' @ stringify_names (outline m) @
     '',"twotone":'' @ stringify_names (twotone m) @ ''}''\<close>

subsection \<open>Colour substitution of the dual-tone emitter\<close>

definition color_subst :: "string \<Rightarrow> string" where
  \<open>color_subst s =
     replace_all ''"#D8D8D8"'' ''secondaryColor''
       (replace_all ''"#D9D9D9"'' ''secondaryColor''
         (replace_all ''"#E6E6E6"'' ''secondaryColor''
           (replace_all ''"#333"'' ''primaryColor'' s)))\<close>

definition getter_function :: "IconDefinition \<Rightarrow> string" where
  "getter_function ic =
     ''function (primaryColor: string, secondaryColor: string) { return '' @
     color_subst (stringify_icon ic) @ ''; }''"

section \<open>The environment of a build\<close>

text \<open>
  \<^verbatim>\<open>Environment\<close> is the argument of \<^verbatim>\<open>build\<close>: its paths and the options of the optimizer
  and of the formatter. Of the optimizer's options only the plugin list is read by
  \<^verbatim>\<open>build\<close>; of the formatter's only \<^verbatim>\<open>parser\<close> is set.
\<close>

datatype error = Error string

datatype svgo_plugin = removeAttrs "string list" | plugin string

record SVGO_options =
  plugins :: "svgo_plugin list"
  svgo_rest :: string

record Prettier_options =
  parser :: "string option"
  prettier_rest :: string

record Paths =
  SVG_DIR :: string
  ICON_TEMPLATE :: string
  TWO_TONE_ICON_TEMPLATE :: string
  INDEX_TEMPLATE :: string
  MANIFEST_TEMPLATE :: string
  ICON_OUTPUT_DIR :: string
  INDEX_OUTPUT :: string
  MANIFEST_OUTPUT :: string

record Options =
  svgo :: SVGO_options
  prettier :: Prettier_options

record Environment =
  paths :: Paths
  options :: Options
  base :: string

text \<open>The placeholder tokens of \<^verbatim>\<open>./constants\<close>, which is not part of the sources at hand: strings.\<close>

record Constants =
  EXPORT_DEFAULT_COMPONENT_FROM_DIR :: string
  EXPORT_DEFAULT_MANIFEST :: string
  ICON_GETTER_FUNCTION :: string
  ICON_IDENTIFIER :: string
  ICON_JSON :: string
  TWO_TONE_NAME :: string
  TWO_TONE_THEME :: string

text \<open>
  What \<^verbatim>\<open>build\<close> calls and does not define: the file system, \<^verbatim>\<open>path.resolve\<close>, the helpers
  of \<^verbatim>\<open>./utils\<close>, lodash, SVGO, parse5 with \<^verbatim>\<open>generateAbstractTree\<close>, and Prettier. A call
  that can throw or reject returns an \<open>error\<close> on the left. The file system that is read
  does not change during a run. \<open>finish k\<close> is the moment at which a materialization
  task of the \<open>k\<close>-th subscription to \<^verbatim>\<open>svgMetaDataWithTheme$\<close> settles: the pipeline merges
  the tasks with \<^verbatim>\<open>mergeMap\<close>, which hands results on as the promises settle.
\<close>

record World =
  constants :: Constants
  clear :: "Environment \<Rightarrow> error option"
  normalize_names :: "Environment \<Rightarrow> error + string list"
  readFile :: "string \<Rightarrow> error + string"
  writeFile :: "string \<Rightarrow> string \<Rightarrow> error option"
  isAccessable :: "string \<Rightarrow> bool"
  path_resolve :: "string list \<Rightarrow> string"
  getIdentifier :: "string \<Rightarrow> ThemeType \<Rightarrow> string"
  upperFirst :: "string \<Rightarrow> string"
  camelCase :: "string \<Rightarrow> string"
  svgo_optimize :: "SVGO_options \<Rightarrow> string \<Rightarrow> error + string"
  abstract_tree :: "string \<Rightarrow> string \<Rightarrow> error + AbstractNode"
  prettier_format :: "Prettier_options \<Rightarrow> string \<Rightarrow> error + string"
  finish :: "nat \<Rightarrow> ThemeType \<Rightarrow> string \<Rightarrow> nat"

section \<open>Materialization (\<^verbatim>\<open>svgMetaDataWithTheme$\<close>)\<close>

definition singleType :: "ThemeType list" where
  "singleType = [Fill, Outline]"

definition svgoForSingleIcon :: "Environment \<Rightarrow> SVGO_options" where
  "svgoForSingleIcon env =
     (svgo (options env))\<lparr>plugins := plugins (svgo (options env)) @ [removeAttrs [''fill'']]\<rparr>"

definition optimizer :: "Environment \<Rightarrow> ThemeType \<Rightarrow> SVGO_options" where
  "optimizer env th =
     (if th \<in> set singleType then svgoForSingleIcon env else svgo (options env))"

definition svg_file :: "World \<Rightarrow> Environment \<Rightarrow> ThemeType \<Rightarrow> string \<Rightarrow> string" where
  "svg_file W env th n = path_resolve W [SVG_DIR (paths env), theme_str th, n @ ''.svg'']"

definition name_and_path :: "World \<Rightarrow> ThemeType \<Rightarrow> string \<Rightarrow> NameAndPath" where
  "name_and_path W th n =
     \<lparr>kebabCaseName = n, np_identifier = getIdentifier W (upperFirst W (camelCase W n)) th\<rparr>"

text \<open>The names of one theme that pass the \<^verbatim>\<open>filter\<close>, in the order of \<^verbatim>\<open>svgBasicNames\<close>.\<close>

definition theme_tasks :: "World \<Rightarrow> Environment \<Rightarrow> string list \<Rightarrow> ThemeType \<Rightarrow> NameAndPath list" where
  "theme_tasks W env svgBasicNames th =
     filter (\<lambda>np. isAccessable W (svg_file W env th (kebabCaseName np)))
       (map (name_and_path W th) svgBasicNames)"

text \<open>
  The tasks in the order in which a subscription starts them: theme by theme, and within
  a theme name by name (all sources are synchronous arrays).
\<close>

definition started :: "World \<Rightarrow> Environment \<Rightarrow> string list \<Rightarrow> (ThemeType \<times> NameAndPath) list" where
  "started W env svgBasicNames =
     concat (map (\<lambda>th. map (Pair th) (theme_tasks W env svgBasicNames th)) [Fill, Outline, Twotone])"

text \<open>The asynchronous function of the inner \<^verbatim>\<open>mergeMap\<close>.\<close>

definition materialize :: "World \<Rightarrow> Environment \<Rightarrow> ThemeType \<times> NameAndPath \<Rightarrow> error + BuildTimeIconMetaData" where
  "materialize W env task =
     (case task of (th, np) \<Rightarrow>
       (case readFile W (svg_file W env th (kebabCaseName np)) of
          Inl e \<Rightarrow> Inl e
        | Inr raw \<Rightarrow>
       (case svgo_optimize W (optimizer env th) raw of
          Inl e \<Rightarrow> Inl e
        | Inr data \<Rightarrow>
       (case abstract_tree W data (kebabCaseName np) of
          Inl e \<Rightarrow> Inl e
        | Inr t \<Rightarrow>
            Inr \<lparr>identifier = np_identifier np,
                 icon = \<lparr>name = kebabCaseName np, theme = th, node = t\<rparr>\<rparr>))))"

text \<open>
  The order in which the tasks of subscription \<open>k\<close> settle: by their moments, tasks with
  the same moment in the order they were started (\<open>sort_key\<close> is stable).
\<close>

definition settled :: "World \<Rightarrow> Environment \<Rightarrow> string list \<Rightarrow> nat \<Rightarrow> (ThemeType \<times> NameAndPath) list" where
  "settled W env svgBasicNames k =
     sort_key (\<lambda>task. finish W k (fst task) (kebabCaseName (snd task))) (started W env svgBasicNames)"

text \<open>The notifications of the merged stream, one per task; an error ends a stream.\<close>

definition svgMetaDataWithTheme :: "World \<Rightarrow> Environment \<Rightarrow> string list \<Rightarrow> nat \<Rightarrow> (error + BuildTimeIconMetaData) list" where
  "svgMetaDataWithTheme W env svgBasicNames k =
     map (materialize W env) (settled W env svgBasicNames k)"

fun delivered :: "(error + 'a) list \<Rightarrow> 'a list \<times> error option" where
  "delivered [] = ([], None)"
| "delivered (Inl e # rs) = ([], Some e)"
| "delivered (Inr x # rs) = (case delivered rs of (xs, r) \<Rightarrow> (x # xs, r))"

section \<open>The emitters\<close>

definition single_source :: "Constants \<Rightarrow> string \<Rightarrow> BuildTimeIconMetaData \<Rightarrow> string" where
  "single_source C iconTsTemplate md =
     js_replace (ICON_JSON C) (stringify_icon (icon md))
       (js_replace (ICON_IDENTIFIER C) (identifier md) iconTsTemplate)"

text \<open>\<open>ic\<close> is the icon after the fixup, as the callback has reassigned its parameter.\<close>

definition twotone_source :: "Constants \<Rightarrow> string \<Rightarrow> string \<Rightarrow> IconDefinition \<Rightarrow> string" where
  "twotone_source C twoToneIconTsTemplate ident ic =
     js_replace (TWO_TONE_THEME C) (theme_str (theme ic))
       (js_replace (TWO_TONE_NAME C) (name ic)
         (js_replace (ICON_GETTER_FUNCTION C) (getter_function ic)
           (js_replace (ICON_IDENTIFIER C) ident twoToneIconTsTemplate)))"

definition icon_file :: "World \<Rightarrow> Environment \<Rightarrow> string \<Rightarrow> string \<Rightarrow> BuildTimeIconMetaData \<Rightarrow> error + WriteFileMetaData" where
  "icon_file W env iconTsTemplate twoToneIconTsTemplate md =
     (let ic = theme_fixup (icon md);
          formatted =
            (if theme ic = Twotone
             then prettier_format W ((prettier (options env))\<lparr>parser := Some ''typescript''\<rparr>)
                    (twotone_source (constants W) twoToneIconTsTemplate (identifier md) ic)
             else prettier_format W (prettier (options env))
                    (single_source (constants W) iconTsTemplate md))
      in case formatted of
           Inl e \<Rightarrow> Inl e
         | Inr c \<Rightarrow>
             Inr \<lparr>path = path_resolve W [ICON_OUTPUT_DIR (paths env), theme_str (theme ic),
                                         ''./'' @ identifier md @ ''.ts''],
                  content = c\<rparr>)"

definition iconFiles :: "World \<Rightarrow> Environment \<Rightarrow> string \<Rightarrow> string \<Rightarrow> string list \<Rightarrow> (error + WriteFileMetaData) list" where
  "iconFiles W env iconTsTemplate twoToneIconTsTemplate svgBasicNames =
     map (\<lambda>r. case r of Inl e \<Rightarrow> Inl e
                | Inr md \<Rightarrow> icon_file W env iconTsTemplate twoToneIconTsTemplate md)
       (svgMetaDataWithTheme W env svgBasicNames 0)"

subsection \<open>Index\<close>

definition index_line :: "BuildTimeIconMetaData \<Rightarrow> string" where
  "index_line md =
     ''export { default as '' @ identifier md @ '' } from '' @ [CHR 0x27] @ ''./'' @
     theme_str (theme (icon md)) @ ''/'' @ identifier md @ [CHR 0x27] @ '';'' @ [CHR 0x0A]"

definition index_content :: "BuildTimeIconMetaData list \<Rightarrow> string" where
  "index_content mds = foldl (\<lambda>acc md. acc @ index_line md) [] mds"

definition indexFile :: "World \<Rightarrow> Environment \<Rightarrow> string \<Rightarrow> string list \<Rightarrow> (error + WriteFileMetaData) list" where
  "indexFile W env indexTsTemplate svgBasicNames =
     (case delivered (svgMetaDataWithTheme W env svgBasicNames 1) of
        (mds, Some e) \<Rightarrow> [Inl e]
      | (mds, None) \<Rightarrow>
          (case prettier_format W (prettier (options env))
                  (js_replace (EXPORT_DEFAULT_COMPONENT_FROM_DIR (constants W))
                     (index_content mds) indexTsTemplate) of
             Inl e \<Rightarrow> [Inl e]
           | Inr c \<Rightarrow> [Inr \<lparr>path = INDEX_OUTPUT (paths env), content = c\<rparr>]))"

subsection \<open>Manifest\<close>

definition accessible_names :: "World \<Rightarrow> Environment \<Rightarrow> string list \<Rightarrow> ThemeType \<Rightarrow> string list" where
  "accessible_names W env svgBasicNames th =
     filter (\<lambda>n. isAccessable W (svg_file W env th n)) svgBasicNames"

fun assign_theme :: "Manifest \<Rightarrow> ThemeType \<times> string list \<Rightarrow> Manifest" where
  "assign_theme acc (Fill, names) = acc\<lparr>fill := names\<rparr>"
| "assign_theme acc (Outline, names) = acc\<lparr>outline := names\<rparr>"
| "assign_theme acc (Twotone, names) = acc\<lparr>twotone := names\<rparr>"

definition manifest :: "World \<Rightarrow> Environment \<Rightarrow> string list \<Rightarrow> Manifest" where
  "manifest W env svgBasicNames =
     foldl assign_theme \<lparr>fill = [], outline = [], twotone = []\<rparr>
       (map (\<lambda>th. (th, accessible_names W env svgBasicNames th)) [Fill, Outline, Twotone])"

fun manifest_of :: "Manifest \<Rightarrow> ThemeType \<Rightarrow> string list" where
  "manifest_of m Fill = fill m"
| "manifest_of m Outline = outline m"
| "manifest_of m Twotone = twotone m"

definition manifestFile :: "World \<Rightarrow> Environment \<Rightarrow> string \<Rightarrow> string list \<Rightarrow> (error + WriteFileMetaData) list" where
  "manifestFile W env manifestTsTemplate svgBasicNames =
     (case prettier_format W (prettier (options env))
             (js_replace (EXPORT_DEFAULT_MANIFEST (constants W))
                (''export default '' @ stringify_manifest (manifest W env svgBasicNames) @ '';'')
                manifestTsTemplate) of
        Inl e \<Rightarrow> [Inl e]
      | Inr c \<Rightarrow> [Inr \<lparr>path = MANIFEST_OUTPUT (paths env), content = c\<rparr>])"

section \<open>The orchestrator (\<^verbatim>\<open>build\<close>)\<close>

text \<open>
  \<^verbatim>\<open>files$\<close> is the concatenation of the three streams; a later stream is subscribed to
  only when the one before it has completed. Every file that arrives is written at once
  (the write is issued in the \<^verbatim>\<open>mergeMap\<close> callback); an error notification, or a write
  that fails, rejects the promise of the run. A \<open>Run\<close> records the writes that were issued,
  in order, and how the run ended (\<open>None\<close>: resolved). Log output is not recorded.
\<close>

record Run =
  written :: "WriteFileMetaData list"
  outcome :: "error option"

definition files :: "World \<Rightarrow> Environment \<Rightarrow> string \<Rightarrow> string \<Rightarrow> string \<Rightarrow> string \<Rightarrow> string list \<Rightarrow> (error + WriteFileMetaData) list" where
  "files W env iconTsTemplate twoToneIconTsTemplate indexTsTemplate manifestTsTemplate svgBasicNames =
     iconFiles W env iconTsTemplate twoToneIconTsTemplate svgBasicNames @
     manifestFile W env manifestTsTemplate svgBasicNames @
     indexFile W env indexTsTemplate svgBasicNames"

fun write_files :: "World \<Rightarrow> (error + WriteFileMetaData) list \<Rightarrow> Run" where
  "write_files W [] = \<lparr>written = [], outcome = None\<rparr>"
| "write_files W (Inl e # rs) = \<lparr>written = [], outcome = Some e\<rparr>"
| "write_files W (Inr f # rs) =
     (case writeFile W (path f) (content f) of
        Some e \<Rightarrow> \<lparr>written = [f], outcome = Some e\<rparr>
      | None \<Rightarrow> (let r = write_files W rs in r\<lparr>written := f # written r\<rparr>))"

definition rejected :: "error \<Rightarrow> Run" where
  "rejected e = \<lparr>written = [], outcome = Some e\<rparr>"

definition build :: "World \<Rightarrow> Environment \<Rightarrow> Run" where
  "build W env =
     (case clear W env of
        Some e \<Rightarrow> rejected e
      | None \<Rightarrow>
     (case normalize_names W env of
        Inl e \<Rightarrow> rejected e
      | Inr svgBasicNames \<Rightarrow>
     (case readFile W (ICON_TEMPLATE (paths env)) of
        Inl e \<Rightarrow> rejected e
      | Inr iconTsTemplate \<Rightarrow>
     (case readFile W (TWO_TONE_ICON_TEMPLATE (paths env)) of
        Inl e \<Rightarrow> rejected e
      | Inr twoToneIconTsTemplate \<Rightarrow>
     (case readFile W (INDEX_TEMPLATE (paths env)) of
        Inl e \<Rightarrow> rejected e
      | Inr indexTsTemplate \<Rightarrow>
     (case readFile W (MANIFEST_TEMPLATE (paths env)) of
        Inl e \<Rightarrow> rejected e
      | Inr manifestTsTemplate \<Rightarrow>
          write_files W
            (files W env iconTsTemplate twoToneIconTsTemplate indexTsTemplate
               manifestTsTemplate svgBasicNames)))))))"

subsection \<open>Trees without a fill attribute\<close>

fun no_fill :: "AbstractNode \<Rightarrow> bool" where
  "no_fill (AbstractNode t kvs cs) = (attr_get kvs ''fill'' = None \<and> list_all no_fill cs)"

subsection \<open>What the substitution is compared with\<close>

text \<open>
  The characters that stand between the strings of a serialized icon, and the rendering
  of one string that the specification of the dual-tone emitter describes: the parameter
  name for a recognized literal, the quoted string for every other one.
\<close>

definition punct :: "char set" where
  \<open>punct = {CHR ''{'', CHR ''}'', CHR ''['', CHR '']'', CHR '':'', CHR '',''}\<close>

definition substituted_string :: "string \<Rightarrow> string" where
  "substituted_string s =
     (if s = ''#333'' then ''primaryColor''
      else if s = ''#E6E6E6'' \<or> s = ''#D9D9D9'' \<or> s = ''#D8D8D8'' then ''secondaryColor''
      else json_quote s)"

section \<open>Example inputs\<close>

definition fixup_example :: IconDefinition where
  "fixup_example =
     \<lparr>name = ''x'', theme = Twotone,
      node = AbstractNode ''svg'' []
        [AbstractNode ''title'' [] [], AbstractNode ''path'' [(''fill'', [])] [],
         AbstractNode ''path'' [(''d'', ''M0 0''), (''fill'', ''#D9D9D9'')] []]\<rparr>"


definition example_constants :: Constants where
  "example_constants =
     \<lparr>EXPORT_DEFAULT_COMPONENT_FROM_DIR = ''<% EXPORTS %>'',
      EXPORT_DEFAULT_MANIFEST = ''<% MANIFEST %>'',
      ICON_GETTER_FUNCTION = ''<% GETTER %>'',
      ICON_IDENTIFIER = ''<% ID %>'',
      ICON_JSON = ''<% JSON %>'',
      TWO_TONE_NAME = ''<% NAME %>'',
      TWO_TONE_THEME = ''<% THEME %>''\<rparr>"

definition example_env :: Environment where
  "example_env =
     \<lparr>paths = \<lparr>SVG_DIR = ''svg'', ICON_TEMPLATE = ''t/icon'', TWO_TONE_ICON_TEMPLATE = ''t/twotone'',
                INDEX_TEMPLATE = ''t/index'', MANIFEST_TEMPLATE = ''t/manifest'',
                ICON_OUTPUT_DIR = ''out'', INDEX_OUTPUT = ''out/index.ts'',
                MANIFEST_OUTPUT = ''out/manifest.ts''\<rparr>,
      options = \<lparr>svgo = \<lparr>plugins = [], svgo_rest = []\<rparr>,
                  prettier = \<lparr>parser = None, prettier_rest = []\<rparr>\<rparr>,
      base = ''.''\<rparr>"

fun example_suffix :: "ThemeType \<Rightarrow> string" where
  "example_suffix Fill = ''Fill''"
| "example_suffix Outline = ''Outline''"
| "example_suffix Twotone = ''TwoTone''"

definition example_upperFirst :: "string \<Rightarrow> string" where
  "example_upperFirst s =
     (if s = ''home'' then ''Home'' else if s = ''user'' then ''User'' else s)"

definition example_readFile :: "string \<Rightarrow> error + string" where
  "example_readFile p =
     (if p = ''t/icon'' then Inr ''<% ID %> = <% JSON %>''
      else if p = ''t/twotone'' then Inr ''<% ID %> = <% GETTER %> <% NAME %> <% THEME %>''
      else if p = ''t/index'' then Inr ''<% EXPORTS %>''
      else if p = ''t/manifest'' then Inr ''<% MANIFEST %>''
      else if p = ''svg/fill/home.svg'' \<or> p = ''svg/fill/user.svg'' then Inr p
      else Inl (Error ''ENOENT''))"

text \<open>
  A world with the two names \<^verbatim>\<open>home\<close> and \<^verbatim>\<open>user\<close>, both present under \<^verbatim>\<open>fill\<close> only. A
  source file holds its own path; the optimizer rejects the files listed in \<open>bad\<close>; the
  formatter returns its input; \<open>fin\<close> gives the moments at which the tasks settle.
\<close>

definition example_world :: "(nat \<Rightarrow> ThemeType \<Rightarrow> string \<Rightarrow> nat) \<Rightarrow> string list \<Rightarrow> World" where
  "example_world fin bad =
     \<lparr>constants = example_constants,
      clear = (\<lambda>env. None),
      normalize_names = (\<lambda>env. Inr [''home'', ''user'']),
      readFile = example_readFile,
      writeFile = (\<lambda>p c. None),
      isAccessable = (\<lambda>p. p = ''svg/fill/home.svg'' \<or> p = ''svg/fill/user.svg''),
      path_resolve = join ''/'',
      getIdentifier = (\<lambda>n th. n @ example_suffix th),
      upperFirst = example_upperFirst,
      camelCase = (\<lambda>s. s),
      svgo_optimize = (\<lambda>opts raw. if raw \<in> set bad then Inl (Error ''unclosed tag'') else Inr raw),
      abstract_tree = (\<lambda>data n. Inr (AbstractNode ''svg'' [] [])),
      prettier_format = (\<lambda>opts src. Inr src),
      finish = fin\<rparr>"

definition user_first :: "nat \<Rightarrow> ThemeType \<Rightarrow> string \<Rightarrow> nat" where
  "user_first k th n = (if k = 1 \<and> n = ''home'' then 1 else 0)"

definition home_first :: "nat \<Rightarrow> ThemeType \<Rightarrow> string \<Rightarrow> nat" where
  "home_first k th n = (if n = ''home'' then 0 else 1)"

section \<open>Theme fixup: what it changes\<close>

lemma attr_get_attr_set_same: "attr_get (attr_set k v kvs) k = Some v"
  by (induction kvs) auto

lemma attr_get_attr_set_other: "k' \<noteq> k \<Longrightarrow> attr_get (attr_set k v kvs) k' = attr_get kvs k'"
  by (induction kvs) auto

lemma attr_set_present_id: "attr_get kvs k = Some v \<Longrightarrow> attr_set k v kvs = kvs"
  by (induction kvs) (auto split: if_splits)

lemma attr_set_absent_append: "attr_get kvs k = None \<Longrightarrow> attr_set k v kvs = kvs @ [(k, v)]"
  by (induction kvs) (auto split: if_splits)

lemma fix_child_sel [simp]:
  "tag (fix_child c) = tag c" "children (fix_child c) = children c"
  by (simp_all add: fix_child_def)

lemma fix_child_fill:
  "attr_get (attrs (fix_child c)) ''fill'' = Some (fill_or_default (attrs c))"
  by (simp add: fix_child_def attr_get_attr_set_same)

lemma fix_child_other:
  "k \<noteq> ''fill'' \<Longrightarrow> attr_get (attrs (fix_child c)) k = attr_get (attrs c) k"
  by (simp add: fix_child_def attr_get_attr_set_other)

lemma fill_or_default_nonempty: "fill_or_default kvs \<noteq> []"
  by (simp add: fill_or_default_def split: option.splits)

lemma fix_child_id:
  assumes "attr_get (attrs c) ''fill'' = Some v" "v \<noteq> []"
  shows "fix_child c = c"
proof -
  have "fill_or_default (attrs c) = v"
    using assms by (simp add: fill_or_default_def)
  then have "attr_set ''fill'' (fill_or_default (attrs c)) (attrs c) = attrs c"
    using assms(1) by (simp add: attr_set_present_id)
  then show ?thesis
    by (simp add: fix_child_def)
qed

lemma children_theme_fixup:
  "theme ic = Twotone \<Longrightarrow> children (node (theme_fixup ic)) = map fix_child (children (node ic))"
  by (simp add: theme_fixup_def)

text \<open>
  Claim C9. In a twotone icon every immediate child, whatever its tag, whose \<^verbatim>\<open>fill\<close> is
  absent or the empty string has \<^verbatim>\<open>fill\<close> equal to \<^verbatim>\<open>#333\<close> after the fixup: an empty
  \<^verbatim>\<open>fill\<close> is overwritten. The statement puts no condition on the tag.
\<close>

theorem fixup_overwrites_falsy_fill_of_any_child:
  assumes "theme ic = Twotone"
    and "i < length (children (node ic))"
    and "attr_get (attrs (children (node ic) ! i)) ''fill'' = None
         \<or> attr_get (attrs (children (node ic) ! i)) ''fill'' = Some []"
  shows "attr_get (attrs (children (node (theme_fixup ic)) ! i)) ''fill'' = Some ''#333''
         \<and> tag (children (node (theme_fixup ic)) ! i) = tag (children (node ic) ! i)"
  using assms
  by (auto simp: children_theme_fixup fix_child_fill fill_or_default_def)

theorem fixup_overwrites_falsy_fill_of_any_child_witness:
  "attr_get (attrs (children (node (theme_fixup fixup_example)) ! 1)) ''fill'' = Some ''#333''
   \<and> tag (children (node (theme_fixup fixup_example)) ! 1) = ''path''"
  using fixup_overwrites_falsy_fill_of_any_child [of fixup_example 1]
  by (simp add: fixup_example_def)

text \<open>
  Claim C3 as stated fails: in \<open>fixup_example\<close> the child \<^verbatim>\<open>title\<close>, which is no path, receives
  the default, and the path child, which has a \<^verbatim>\<open>fill\<close> (the empty string), is changed.
\<close>

theorem fixup_only_paths_counterexample:
  "tag (children (node fixup_example) ! 0) \<noteq> ''path''
   \<and> attr_get (attrs (children (node fixup_example) ! 0)) ''fill'' = None
   \<and> attr_get (attrs (children (node (theme_fixup fixup_example)) ! 0)) ''fill'' = Some ''#333''
   \<and> attr_get (attrs (children (node fixup_example) ! 1)) ''fill'' = Some []
   \<and> children (node (theme_fixup fixup_example)) ! 1 \<noteq> children (node fixup_example) ! 1"
  by (simp add: fixup_example_def theme_fixup_def fix_child_def fill_or_default_def)

text \<open>
  Claim C3, amended. The fixup leaves an icon of another theme as it is. In a twotone icon
  it changes nothing but the \<^verbatim>\<open>fill\<close> of immediate children: a child of any tag whose
  \<^verbatim>\<open>fill\<close> is absent or empty gets \<^verbatim>\<open>#333\<close>, every other child is unchanged, and afterwards
  every immediate child has a \<^verbatim>\<open>fill\<close> that is neither absent nor empty.
\<close>

theorem fixup_defaults_falsy_fill:
  "(theme ic \<noteq> Twotone \<longrightarrow> theme_fixup ic = ic) \<and>
   (theme ic = Twotone \<longrightarrow>
      name (theme_fixup ic) = name ic \<and> theme (theme_fixup ic) = theme ic \<and>
      tag (node (theme_fixup ic)) = tag (node ic) \<and>
      attrs (node (theme_fixup ic)) = attrs (node ic) \<and>
      length (children (node (theme_fixup ic))) = length (children (node ic)) \<and>
      (\<forall>i < length (children (node ic)).
         (let c = children (node ic) ! i; c' = children (node (theme_fixup ic)) ! i in
            attr_get (attrs c') ''fill'' \<noteq> None \<and> attr_get (attrs c') ''fill'' \<noteq> Some [] \<and>
            tag c' = tag c \<and> children c' = children c \<and>
            (\<forall>k. k \<noteq> ''fill'' \<longrightarrow> attr_get (attrs c') k = attr_get (attrs c) k) \<and>
            (if attr_get (attrs c) ''fill'' = None \<or> attr_get (attrs c) ''fill'' = Some []
             then attr_get (attrs c') ''fill'' = Some ''#333''
             else c' = c))))"
proof (intro conjI impI)
  assume "theme ic \<noteq> Twotone"
  then show "theme_fixup ic = ic" by (simp add: theme_fixup_def)
next
  assume t: "theme ic = Twotone"
  show "\<forall>i < length (children (node ic)).
         (let c = children (node ic) ! i; c' = children (node (theme_fixup ic)) ! i in
            attr_get (attrs c') ''fill'' \<noteq> None \<and> attr_get (attrs c') ''fill'' \<noteq> Some [] \<and>
            tag c' = tag c \<and> children c' = children c \<and>
            (\<forall>k. k \<noteq> ''fill'' \<longrightarrow> attr_get (attrs c') k = attr_get (attrs c) k) \<and>
            (if attr_get (attrs c) ''fill'' = None \<or> attr_get (attrs c) ''fill'' = Some []
             then attr_get (attrs c') ''fill'' = Some ''#333''
             else c' = c))"
  proof (intro allI impI)
    fix i assume i: "i < length (children (node ic))"
    define c where "c = children (node ic) ! i"
    have c': "children (node (theme_fixup ic)) ! i = fix_child c"
      using t i by (simp add: children_theme_fixup c_def)
    have "(if attr_get (attrs c) ''fill'' = None \<or> attr_get (attrs c) ''fill'' = Some []
             then attr_get (attrs (fix_child c)) ''fill'' = Some ''#333''
             else fix_child c = c)"
      by (auto simp: fix_child_fill fill_or_default_def fix_child_id)
    then show "(let c = children (node ic) ! i; c' = children (node (theme_fixup ic)) ! i in
            attr_get (attrs c') ''fill'' \<noteq> None \<and> attr_get (attrs c') ''fill'' \<noteq> Some [] \<and>
            tag c' = tag c \<and> children c' = children c \<and>
            (\<forall>k. k \<noteq> ''fill'' \<longrightarrow> attr_get (attrs c') k = attr_get (attrs c) k) \<and>
            (if attr_get (attrs c) ''fill'' = None \<or> attr_get (attrs c) ''fill'' = Some []
             then attr_get (attrs c') ''fill'' = Some ''#333''
             else c' = c))"
      unfolding Let_def c' c_def [symmetric]
      by (simp add: fix_child_fill fill_or_default_nonempty fix_child_other)
  qed
qed (simp_all add: theme_fixup_def)

theorem fixup_defaults_falsy_fill_witness:
  "theme fixup_example = Twotone
   \<and> children (node (theme_fixup fixup_example)) ! 0 = AbstractNode ''title'' [(''fill'', ''#333'')] []
   \<and> attr_get (attrs (children (node (theme_fixup fixup_example)) ! 1)) ''fill'' = Some ''#333''
   \<and> children (node (theme_fixup fixup_example)) ! 2 = children (node fixup_example) ! 2"
proof -
  have t: "theme fixup_example = Twotone"
    and l: "length (children (node fixup_example)) = 3"
    by (simp_all add: fixup_example_def)
  have a: "\<forall>i < length (children (node fixup_example)).
         (let c = children (node fixup_example) ! i;
              c' = children (node (theme_fixup fixup_example)) ! i in
            attr_get (attrs c') ''fill'' \<noteq> None \<and> attr_get (attrs c') ''fill'' \<noteq> Some [] \<and>
            tag c' = tag c \<and> children c' = children c \<and>
            (\<forall>k. k \<noteq> ''fill'' \<longrightarrow> attr_get (attrs c') k = attr_get (attrs c) k) \<and>
            (if attr_get (attrs c) ''fill'' = None \<or> attr_get (attrs c) ''fill'' = Some []
             then attr_get (attrs c') ''fill'' = Some ''#333''
             else c' = c))"
    using fixup_defaults_falsy_fill [of fixup_example] t by blast
  have "attr_get (attrs (children (node (theme_fixup fixup_example)) ! 1)) ''fill'' = Some ''#333''"
    using a [rule_format, of 1] l by (simp add: Let_def fixup_example_def)
  moreover have "children (node (theme_fixup fixup_example)) ! 2 = children (node fixup_example) ! 2"
    using a [rule_format, of 2] l by (simp add: Let_def fixup_example_def)
  moreover have "children (node (theme_fixup fixup_example)) ! 0 = AbstractNode ''title'' [(''fill'', ''#333'')] []"
    by (simp add: fixup_example_def theme_fixup_def fix_child_def fill_or_default_def)
  ultimately show ?thesis using t by simp
qed

lemma manifest_of_manifest:
  "manifest_of (manifest W env ns) th = accessible_names W env ns th"
  by (cases th) (simp_all add: manifest_def)

section \<open>Manifest\<close>

text \<open>
  Claim C5. For every theme the manifest's entry is the canonical name list filtered by
  the existence of the theme's source file: a subsequence of the list, in its order, with
  exactly the names whose file exists.
\<close>

theorem manifest_is_accessible_subsequence:
  "manifest_of (manifest W env svgBasicNames) th =
     filter (\<lambda>n. isAccessable W (svg_file W env th n)) svgBasicNames
   \<and> subseq (manifest_of (manifest W env svgBasicNames) th) svgBasicNames
   \<and> set (manifest_of (manifest W env svgBasicNames) th) =
       {n \<in> set svgBasicNames. isAccessable W (svg_file W env th n)}"
  by (auto simp: manifest_of_manifest accessible_names_def)


section \<open>The colour substitution on the serialized icon\<close>

subsection \<open>Splitting at punctuation\<close>


lemma prefix_append_delim:
  assumes "c \<notin> set p"
  shows "prefix p (a @ c # b) \<longleftrightarrow> prefix p a"
proof
  assume "prefix p (a @ c # b)"
  then consider "prefix p a" | us where "p = a @ us" "prefix us (c # b)"
    by (auto simp: prefix_append)
  then show "prefix p a"
  proof cases
    case 1 then show ?thesis .
  next
    case 2
    then have "us = []" using assms by (cases us) auto
    with 2 show ?thesis by simp
  qed
next
  assume "prefix p a"
  then show "prefix p (a @ c # b)" by (simp add: prefix_prefix)
qed

lemma drop_append_le: "n \<le> length ys \<Longrightarrow> drop n (ys @ zs) = drop n ys @ zs"
  by simp

lemma replace_all_delim:
  assumes "c \<notin> set p"
  shows "replace_all p r (a @ c # b) = replace_all p r a @ c # replace_all p r b"
  using assms
proof (induction p r a rule: replace_all.induct)
  case (1 p r)
  then have "\<not> prefix p (c # b) \<or> p = []"
    by (cases p) auto
  then show ?case by auto
next
  case (2 p r x xs)
  have pre: "prefix p ((x # xs) @ c # b) \<longleftrightarrow> prefix p (x # xs)"
    using "2.prems" by (rule prefix_append_delim)
  show ?case
  proof (cases "p \<noteq> [] \<and> prefix p (x # xs)")
    case True
    then have len: "length p \<le> length (x # xs)"
      by (auto dest: prefix_length_le)
    have "replace_all p r ((x # xs) @ c # b) =
            r @ replace_all p r (drop (length p) ((x # xs) @ c # b))"
      using True pre by simp
    also have "drop (length p) ((x # xs) @ c # b) = drop (length p) (x # xs) @ c # b"
      using len by (rule drop_append_le)
    also have "replace_all p r (drop (length p) (x # xs) @ c # b) =
            replace_all p r (drop (length p) (x # xs)) @ c # replace_all p r b"
      using "2.IH"(1) True "2.prems" by blast
    finally show ?thesis using True by simp
  next
    case False
    then have "replace_all p r ((x # xs) @ c # b) = x # replace_all p r (xs @ c # b)"
      using pre by auto
    then show ?thesis using False "2.IH"(2) "2.prems" by auto
  qed
qed

lemma color_subst_delim:
  assumes "c \<in> punct"
  shows "color_subst (a @ c # b) = color_subst a @ c # color_subst b"
  using assms by (auto simp: color_subst_def replace_all_delim punct_def)

lemma color_subst_Nil [simp]: "color_subst [] = []"
  by (simp add: color_subst_def)

lemma color_subst_head:
  assumes "c \<in> punct"
  shows "color_subst (c # b) = c # color_subst b"
  using color_subst_delim [OF assms, of "[]" b] by simp

lemma color_subst_last:
  assumes "c \<in> punct"
  shows "color_subst (a @ [c]) = color_subst a @ [c]"
  using color_subst_delim [OF assms, of a "[]"] by simp

lemma color_subst_join:
  "color_subst (join '','' xs) = join '','' (map color_subst xs)"
proof (induction xs rule: induct_list012)
  case (3 x y zs)
  have "color_subst (x @ CHR '','' # join '','' (y # zs)) =
          color_subst x @ CHR '','' # color_subst (join '','' (y # zs))"
    by (rule color_subst_delim) (simp add: punct_def)
  then show ?case using 3 by simp
qed simp_all


lemma color_subst_keys:
  \<open>color_subst ''"tag"'' = ''"tag"''\<close>
  \<open>color_subst ''"attrs"'' = ''"attrs"''\<close>
  \<open>color_subst ''"children"'' = ''"children"''\<close>
  \<open>color_subst ''"name"'' = ''"name"''\<close>
  \<open>color_subst ''"theme"'' = ''"theme"''\<close>
  by (simp_all add: color_subst_def)

lemma color_subst_ser_attr:
  "color_subst (ser_attr q kv) = ser_attr (\<lambda>s. color_subst (q s)) kv"
proof -
  have "color_subst (q (fst kv) @ CHR '':'' # q (snd kv)) =
          color_subst (q (fst kv)) @ CHR '':'' # color_subst (q (snd kv))"
    by (rule color_subst_delim) (simp add: punct_def)
  then show ?thesis by (simp add: ser_attr_def)
qed

lemma color_subst_ser_attrs:
  "color_subst (ser_attrs q kvs) = ser_attrs (\<lambda>s. color_subst (q s)) kvs"
proof -
  have "color_subst (ser_attrs q kvs) =
          CHR ''{'' # color_subst (join '','' (map (ser_attr q) kvs) @ [CHR ''}''])"
    unfolding ser_attrs_def using color_subst_head [of "CHR ''{''"] by (simp add: punct_def)
  also have "color_subst (join '','' (map (ser_attr q) kvs) @ [CHR ''}'']) =
          color_subst (join '','' (map (ser_attr q) kvs)) @ [CHR ''}'']"
    by (rule color_subst_last) (simp add: punct_def)
  finally show ?thesis
    by (simp add: ser_attrs_def color_subst_join color_subst_ser_attr comp_def)
qed

lemma color_subst_open:
  assumes "color_subst k = k"
  shows "color_subst (CHR ''{'' # k @ CHR '':'' # Y) = CHR ''{'' # k @ CHR '':'' # color_subst Y"
proof -
  have "color_subst (CHR ''{'' # k @ CHR '':'' # Y) = CHR ''{'' # color_subst (k @ CHR '':'' # Y)"
    by (rule color_subst_head) (simp add: punct_def)
  also have "color_subst (k @ CHR '':'' # Y) = color_subst k @ CHR '':'' # color_subst Y"
    by (rule color_subst_delim) (simp add: punct_def)
  finally show ?thesis using assms by simp
qed

lemma color_subst_key:
  assumes "color_subst k = k"
  shows "color_subst (A @ CHR '','' # k @ CHR '':'' # Y) =
           color_subst A @ CHR '','' # k @ CHR '':'' # color_subst Y"
proof -
  have "color_subst (A @ CHR '','' # k @ CHR '':'' # Y) =
          color_subst A @ CHR '','' # color_subst (k @ CHR '':'' # Y)"
    by (rule color_subst_delim) (simp add: punct_def)
  also have "color_subst (k @ CHR '':'' # Y) = color_subst k @ CHR '':'' # color_subst Y"
    by (rule color_subst_delim) (simp add: punct_def)
  finally show ?thesis using assms by simp
qed

lemma color_subst_array:
  "color_subst (CHR ''['' # join '','' xs @ '']}'') =
     CHR ''['' # join '','' (map color_subst xs) @ '']}''"
proof -
  have "color_subst (CHR ''['' # join '','' xs @ '']}'') =
          CHR ''['' # color_subst (join '','' xs @ '']}'')"
    by (rule color_subst_head) (simp add: punct_def)
  also have "color_subst (join '','' xs @ CHR '']'' # ''}'') =
          color_subst (join '','' xs) @ CHR '']'' # color_subst ''}''"
    by (rule color_subst_delim) (simp add: punct_def)
  also have "color_subst ''}'' = ''}''"
    by (simp add: color_subst_def)
  finally show ?thesis by (simp add: color_subst_join)
qed

lemma color_subst_node_body:
  \<open>color_subst (A @ '',"attrs":'' @ ser_attrs q kvs @ '',"children":['' @ join '','' xs @ '']}'') =
     color_subst A @ '',"attrs":'' @ ser_attrs (\<lambda>s. color_subst (q s)) kvs @
     '',"children":['' @ join '','' (map color_subst xs) @ '']}''\<close>
proof -
  have \<open>color_subst (A @ CHR '','' # ''"attrs"'' @ CHR '':'' # ser_attrs q kvs @ '',"children":['' @ join '','' xs @ '']}'')
      = color_subst A @ CHR '','' # ''"attrs"'' @ CHR '':'' #
          color_subst (ser_attrs q kvs @ '',"children":['' @ join '','' xs @ '']}'')\<close>
    by (rule color_subst_key) (rule color_subst_keys)
  moreover have \<open>color_subst (ser_attrs q kvs @ CHR '','' # ''"children"'' @ CHR '':'' # CHR ''['' # join '','' xs @ '']}'')
      = color_subst (ser_attrs q kvs) @ CHR '','' # ''"children"'' @ CHR '':'' #
          color_subst (CHR ''['' # join '','' xs @ '']}'')\<close>
    by (rule color_subst_key) (rule color_subst_keys)
  ultimately show ?thesis
    by (simp add: color_subst_array color_subst_ser_attrs)
qed

lemma color_subst_first_key:
  assumes "color_subst k = k"
  shows "color_subst (''{'' @ k @ '':'' @ Y) = ''{'' @ k @ '':'' @ color_subst Y"
  using color_subst_open [OF assms, of Y] by simp

lemma color_subst_next_key:
  assumes "color_subst k = k"
  shows "color_subst (A @ '','' @ k @ '':'' @ Y) = color_subst A @ '','' @ k @ '':'' @ color_subst Y"
  using color_subst_key [OF assms, of A Y] by simp

lemma color_subst_ser_node:
  "color_subst (ser_node q n) = ser_node (\<lambda>s. color_subst (q s)) n"
proof (induction q n rule: ser_node.induct)
  case (1 q t kvs cs)
  let ?body = \<open>'',"attrs":'' @ ser_attrs q kvs @
           '',"children":['' @ join '','' (map (ser_node q) cs) @ '']}''\<close>
  have e1: \<open>ser_node q (AbstractNode t kvs cs) = ''{'' @ ''"tag"'' @ '':'' @ q t @ ?body\<close>
    by simp
  have e2: \<open>color_subst (''{'' @ ''"tag"'' @ '':'' @ q t @ ?body) =
      ''{'' @ ''"tag"'' @ '':'' @ color_subst (q t @ ?body)\<close>
    by (rule color_subst_first_key) (rule color_subst_keys)
  have e3: \<open>color_subst (q t @ ?body) =
      color_subst (q t) @ '',"attrs":'' @ ser_attrs (\<lambda>s. color_subst (q s)) kvs @
      '',"children":['' @ join '','' (map color_subst (map (ser_node q) cs)) @ '']}''\<close>
    by (rule color_subst_node_body)
  have e4: "map color_subst (map (ser_node q) cs) = map (ser_node (\<lambda>s. color_subst (q s))) cs"
    using 1 by simp
  have \<open>color_subst (ser_node q (AbstractNode t kvs cs)) =
      ''{'' @ ''"tag"'' @ '':'' @ color_subst (q t) @ '',"attrs":'' @
      ser_attrs (\<lambda>s. color_subst (q s)) kvs @
      '',"children":['' @ join '','' (map (ser_node (\<lambda>s. color_subst (q s))) cs) @ '']}''\<close>
    by (simp only: e1 e2 e3 e4)
  then show ?case by simp
qed


lemma color_subst_ser_icon:
  "color_subst (ser_icon q ic) = ser_icon (\<lambda>s. color_subst (q s)) ic"
proof -
  let ?body = \<open>'',"attrs":'' @ ser_attrs q (attrs (node ic)) @
           '',"children":['' @ join '','' (map (ser_node q) (children (node ic))) @ '']}''\<close>
  have e1: \<open>ser_icon q ic = ''{'' @ ''"name"'' @ '':'' @ q (name ic) @ '','' @ ''"theme"'' @ '':'' @
           q (theme_str (theme ic)) @ '','' @ ''"tag"'' @ '':'' @ q (tag (node ic)) @ ?body\<close>
    by (simp add: ser_icon_def)
  have e2: \<open>color_subst (''{'' @ ''"name"'' @ '':'' @ q (name ic) @ '','' @ ''"theme"'' @ '':'' @
           q (theme_str (theme ic)) @ '','' @ ''"tag"'' @ '':'' @ q (tag (node ic)) @ ?body) =
        ''{'' @ ''"name"'' @ '':'' @ color_subst (q (name ic) @ '','' @ ''"theme"'' @ '':'' @
           q (theme_str (theme ic)) @ '','' @ ''"tag"'' @ '':'' @ q (tag (node ic)) @ ?body)\<close>
    by (rule color_subst_first_key) (rule color_subst_keys)
  have e3: \<open>color_subst (q (name ic) @ '','' @ ''"theme"'' @ '':'' @
           q (theme_str (theme ic)) @ '','' @ ''"tag"'' @ '':'' @ q (tag (node ic)) @ ?body) =
        color_subst (q (name ic)) @ '','' @ ''"theme"'' @ '':'' @
           color_subst (q (theme_str (theme ic)) @ '','' @ ''"tag"'' @ '':'' @ q (tag (node ic)) @ ?body)\<close>
    by (rule color_subst_next_key) (rule color_subst_keys)
  have e4: \<open>color_subst (q (theme_str (theme ic)) @ '','' @ ''"tag"'' @ '':'' @
           q (tag (node ic)) @ ?body) =
        color_subst (q (theme_str (theme ic))) @ '','' @ ''"tag"'' @ '':'' @
           color_subst (q (tag (node ic)) @ ?body)\<close>
    by (rule color_subst_next_key) (rule color_subst_keys)
  have e5: \<open>color_subst (q (tag (node ic)) @ ?body) =
      color_subst (q (tag (node ic))) @ '',"attrs":'' @
      ser_attrs (\<lambda>s. color_subst (q s)) (attrs (node ic)) @
      '',"children":['' @ join '','' (map color_subst (map (ser_node q) (children (node ic)))) @ '']}''\<close>
    by (rule color_subst_node_body)
  have e6: "map color_subst (map (ser_node q) (children (node ic))) =
      map (ser_node (\<lambda>s. color_subst (q s))) (children (node ic))"
    by (simp add: color_subst_ser_node)
  have \<open>color_subst (ser_icon q ic) =
      ''{'' @ ''"name"'' @ '':'' @ color_subst (q (name ic)) @ '','' @ ''"theme"'' @ '':'' @
      color_subst (q (theme_str (theme ic))) @ '','' @ ''"tag"'' @ '':'' @
      color_subst (q (tag (node ic))) @ '',"attrs":'' @
      ser_attrs (\<lambda>s. color_subst (q s)) (attrs (node ic)) @
      '',"children":['' @ join '','' (map (ser_node (\<lambda>s. color_subst (q s))) (children (node ic))) @ '']}''\<close>
    by (simp only: e1 e2 e3 e4 e5 e6)
  then show ?thesis by (simp add: ser_icon_def)
qed

subsection \<open>A quoted string on its own\<close>

lemma replace_all_no_head:
  assumes "p \<noteq> []" "hd p \<notin> set s"
  shows "replace_all p r s = s"
  using assms
proof (induction s)
  case (Cons c cs)
  then have "\<not> prefix p (c # cs)" by (cases p) auto
  with Cons show ?case by simp
qed simp

lemma replace_all_quoted_tail:
  assumes "q \<notin> set e"
  shows "replace_all (q # m @ [q]) r (e @ [q]) = e @ [q]"
  using assms by (induction e) auto

lemma replace_all_quoted:
  assumes "q \<notin> set e" "q \<notin> set m"
  shows "replace_all (q # m @ [q]) r (q # e @ [q]) = (if e = m then r else q # e @ [q])"
proof (cases "e = m")
  case True
  then show ?thesis by simp
next
  case False
  have "\<not> prefix (m @ [q]) (e @ [q])"
  proof
    assume "prefix (m @ [q]) (e @ [q])"
    then have "prefix (m @ [q]) e" using False by simp
    then have "q \<in> set e" by (auto simp: prefix_def)
    with assms show False by simp
  qed
  then show ?thesis using False assms by (simp add: replace_all_quoted_tail)
qed

lemma json_escape_cases: "json_escape c = [c] \<or> (\<exists>t. json_escape c = CHR 0x5C # t)"
  by (simp add: json_escape_def)

lemma json_escape_no_quote: "CHR 0x22 \<in> set (json_escape c) \<Longrightarrow> c = CHR 0x22"
  by (auto simp: json_escape_def hex_digit_def nth_Cons' split: if_splits)


lemma concat_json_escape_plain:
  "CHR 0x5C \<notin> set (concat (map json_escape s)) \<Longrightarrow> concat (map json_escape s) = s"
proof (induction s)
  case (Cons c cs)
  have "json_escape c = [c]"
    using json_escape_cases [of c] Cons.prems by auto
  then show ?case using Cons by simp
qed simp

lemma concat_json_escape_no_quote:
  "CHR 0x22 \<notin> set s \<Longrightarrow> CHR 0x22 \<notin> set (concat (map json_escape s))"
  by (induction s) (auto dest: json_escape_no_quote)

lemma escaped_eq_literal:
  assumes "CHR 0x5C \<notin> set m" "concat (map json_escape m) = m"
  shows "concat (map json_escape s) = m \<longleftrightarrow> s = m"
  using assms concat_json_escape_plain by metis

lemma escaped_literals:
  "concat (map json_escape s) = ''#333'' \<longleftrightarrow> s = ''#333''"
  "concat (map json_escape s) = ''#E6E6E6'' \<longleftrightarrow> s = ''#E6E6E6''"
  "concat (map json_escape s) = ''#D9D9D9'' \<longleftrightarrow> s = ''#D9D9D9''"
  "concat (map json_escape s) = ''#D8D8D8'' \<longleftrightarrow> s = ''#D8D8D8''"
  by (rule escaped_eq_literal; simp add: json_escape_def)+

lemma color_subst_json_quote:
  assumes "CHR 0x22 \<notin> set s"
  shows "color_subst (json_quote s) = substituted_string s"
proof -
  define e where "e = concat (map json_escape s)"
  have nq: "CHR 0x22 \<notin> set e"
    unfolding e_def using assms by (rule concat_json_escape_no_quote)
  have q: "json_quote s = CHR 0x22 # e @ [CHR 0x22]"
    by (simp add: json_quote_def e_def)
  have r: "replace_all (CHR 0x22 # m @ [CHR 0x22]) r (CHR 0x22 # e @ [CHR 0x22]) =
             (if e = m then r else CHR 0x22 # e @ [CHR 0x22])" if "CHR 0x22 \<notin> set m" for m r
    using nq that by (rule replace_all_quoted)
  have r1: \<open>replace_all ''"#333"'' r (CHR 0x22 # e @ [CHR 0x22]) =
             (if e = ''#333'' then r else CHR 0x22 # e @ [CHR 0x22])\<close> for r
    using r [of "''#333''" r] by simp
  have r2: \<open>replace_all ''"#E6E6E6"'' r (CHR 0x22 # e @ [CHR 0x22]) =
             (if e = ''#E6E6E6'' then r else CHR 0x22 # e @ [CHR 0x22])\<close> for r
    using r [of "''#E6E6E6''" r] by simp
  have r3: \<open>replace_all ''"#D9D9D9"'' r (CHR 0x22 # e @ [CHR 0x22]) =
             (if e = ''#D9D9D9'' then r else CHR 0x22 # e @ [CHR 0x22])\<close> for r
    using r [of "''#D9D9D9''" r] by simp
  have r4: \<open>replace_all ''"#D8D8D8"'' r (CHR 0x22 # e @ [CHR 0x22]) =
             (if e = ''#D8D8D8'' then r else CHR 0x22 # e @ [CHR 0x22])\<close> for r
    using r [of "''#D8D8D8''" r] by simp
  have p: \<open>replace_all (CHR 0x22 # m) r ''primaryColor'' = ''primaryColor''\<close>
          \<open>replace_all (CHR 0x22 # m) r ''secondaryColor'' = ''secondaryColor''\<close> for m r
    by (rule replace_all_no_head; simp)+
  consider (lit) "e = ''#333'' \<or> e = ''#E6E6E6'' \<or> e = ''#D9D9D9'' \<or> e = ''#D8D8D8''"
    | (other) "e \<noteq> ''#333''" "e \<noteq> ''#E6E6E6''" "e \<noteq> ''#D9D9D9''" "e \<noteq> ''#D8D8D8''"
    by blast
  then have "color_subst (CHR 0x22 # e @ [CHR 0x22]) =
     (if e = ''#333'' then ''primaryColor''
      else if e = ''#E6E6E6'' \<or> e = ''#D9D9D9'' \<or> e = ''#D8D8D8'' then ''secondaryColor''
      else CHR 0x22 # e @ [CHR 0x22])"
  proof cases
    case lit
    then show ?thesis by (auto simp: color_subst_def)
  next
    case other
    then show ?thesis by (simp only: color_subst_def r1 r2 r3 r4 if_False simp_thms)
  qed
  then show ?thesis
    by (simp only: q substituted_string_def e_def escaped_literals)
qed

subsection \<open>Occurrences after a replacement\<close>












lemma get_substitution_plain:
  "CHR ''$'' \<notin> set repl \<Longrightarrow> get_substitution m b a repl = repl"
  by (induction m b a repl rule: get_substitution.induct) auto




section \<open>The dual-tone emitter\<close>

text \<open>
  Claim C4. The substitution works on the serialized text alone, and there string by
  string: the text it yields is the serialization in which every string (the name, the
  theme, a tag, an attribute's key or value) is rendered by the substitution applied to
  its quoted form. For a string without a double quote that rendering is \<^verbatim>\<open>primaryColor\<close>
  for \<^verbatim>\<open>#333\<close>, \<^verbatim>\<open>secondaryColor\<close> for \<^verbatim>\<open>#E6E6E6\<close>, \<^verbatim>\<open>#D9D9D9\<close> and \<^verbatim>\<open>#D8D8D8\<close>, and the quoted
  string itself, unchanged, for every other one.
\<close>

theorem color_subst_by_string:
  "color_subst (stringify_icon ic) = ser_icon (\<lambda>s. color_subst (json_quote s)) ic
   \<and> getter_function ic =
       ''function (primaryColor: string, secondaryColor: string) { return '' @
       ser_icon (\<lambda>s. color_subst (json_quote s)) ic @ ''; }''
   \<and> (CHR 0x22 \<notin> set s \<longrightarrow> color_subst (json_quote s) = substituted_string s)"
  by (simp add: stringify_icon_def getter_function_def color_subst_ser_icon color_subst_json_quote)

theorem color_subst_by_string_witness:
  \<open>CHR 0x22 \<notin> set ''#D9D9D9''
   \<and> color_subst (json_quote ''#D9D9D9'') = ''secondaryColor''
   \<and> color_subst (json_quote ''#FFF'') = ''"#FFF"''
   \<and> color_subst (stringify_icon (theme_fixup fixup_example)) =
       ''{"name":"x","theme":"twotone","tag":"svg","attrs":{},"children":['' @
       ''{"tag":"title","attrs":{"fill":primaryColor},"children":[]},'' @
       ''{"tag":"path","attrs":{"fill":primaryColor},"children":[]},'' @
       ''{"tag":"path","attrs":{"d":"M0 0","fill":secondaryColor},"children":[]}]}''\<close>
proof -
  have a: "color_subst (json_quote s) = substituted_string s" if "CHR 0x22 \<notin> set s" for s
    using color_subst_by_string [of fixup_example s] that by blast
  have b: \<open>color_subst (json_quote ''#D9D9D9'') = ''secondaryColor''\<close>
      \<open>color_subst (json_quote ''#FFF'') = ''"#FFF"''\<close>
      \<open>color_subst (json_quote ''x'') = ''"x"''\<close>
      \<open>color_subst (json_quote ''twotone'') = ''"twotone"''\<close>
      \<open>color_subst (json_quote ''svg'') = ''"svg"''\<close>
      \<open>color_subst (json_quote ''title'') = ''"title"''\<close>
      \<open>color_subst (json_quote ''path'') = ''"path"''\<close>
      \<open>color_subst (json_quote ''fill'') = ''"fill"''\<close>
      \<open>color_subst (json_quote ''d'') = ''"d"''\<close>
      \<open>color_subst (json_quote ''M0 0'') = ''"M0 0"''\<close>
      \<open>color_subst (json_quote ''#333'') = ''primaryColor''\<close>
    by (subst a; simp add: substituted_string_def json_quote_def json_escape_def)+
  have "color_subst (stringify_icon (theme_fixup fixup_example)) =
      ser_icon (\<lambda>s. color_subst (json_quote s)) (theme_fixup fixup_example)"
    using color_subst_by_string [of "theme_fixup fixup_example"] by blast
  then show ?thesis
    by (simp add: b ser_icon_def ser_attrs_def ser_attr_def fixup_example_def theme_fixup_def
        fix_child_def fill_or_default_def)
qed



lemmas pipeline_defs =
  build_def files_def iconFiles_def manifestFile_def indexFile_def svgMetaDataWithTheme_def
  settled_def started_def theme_tasks_def name_and_path_def svg_file_def materialize_def
  optimizer_def singleType_def svgoForSingleIcon_def icon_file_def theme_fixup_def
  single_source_def js_replace_def stringify_icon_def ser_icon_def ser_attrs_def json_quote_def
  json_escape_def stringify_manifest_def stringify_names_def manifest_def accessible_names_def
  index_content_def index_line_def rejected_def

lemmas example_defs =
  example_world_def example_env_def example_readFile_def example_constants_def
  example_upperFirst_def user_first_def home_first_def

section \<open>Streams and the order of settling\<close>

lemma delivered_all:
  "delivered rs = (mds, None) \<Longrightarrow> map Inr mds = rs"
  by (induction rs arbitrary: mds rule: delivered.induct) (auto split: prod.splits)

lemma delivered_error:
  "(\<exists>r \<in> set rs. isl r) \<Longrightarrow> \<exists>mds e. delivered rs = (mds, Some e)"
  by (induction rs rule: delivered.induct) (auto split: prod.splits)

lemma index_content_concat: "index_content mds = concat (map index_line mds)"
proof -
  have "foldl (\<lambda>acc md. acc @ index_line md) a mds = a @ concat (map index_line mds)" for a
    by (induction mds arbitrary: a) simp_all
  then show ?thesis by (simp add: index_content_def)
qed

lemma mset_settled: "mset (settled W env ns k) = mset (started W env ns)"
  by (simp add: settled_def)

lemma set_settled: "set (settled W env ns k) = set (started W env ns)"
  by (simp add: settled_def)

lemma settled_in_order:
  "sorted (map (\<lambda>task. finish W k (fst task) (kebabCaseName (snd task))) (started W env ns))
   \<Longrightarrow> settled W env ns k = started W env ns"
  by (simp add: settled_def sort_key_id_if_sorted)

lemma started_names:
  "map (\<lambda>task. (fst task, kebabCaseName (snd task))) (started W env ns) =
   concat (map (\<lambda>th. map (Pair th) (accessible_names W env ns th)) [Fill, Outline, Twotone])"
  by (simp add: started_def theme_tasks_def accessible_names_def name_and_path_def
      filter_map comp_def)


lemma materialize_fields:
  "materialize W env task = Inr md \<Longrightarrow>
   identifier md = np_identifier (snd task) \<and> theme (icon md) = fst task \<and>
   name (icon md) = kebabCaseName (snd task)"
  by (auto simp: materialize_def split: prod.splits sum.splits)

section \<open>Index\<close>

text \<open>
  Claim C1, amended. When the index's own subscription delivers every icon, the index
  holds one re-export line per materialization task, the line of a task naming its theme
  and its identifier, in the order in which the tasks settled. That order is a
  permutation of the order in which the tasks were started, which is theme by theme
  (fill, outline, twotone) and within a theme the canonical names with a source file;
  the two orders are the same when the tasks settle in the order they were started.
\<close>

theorem index_lines_follow_the_settling_order:
  assumes "delivered (svgMetaDataWithTheme W env svgBasicNames 1) = (mds, None)"
  shows "map Inr mds = map (materialize W env) (settled W env svgBasicNames 1)
    \<and> mset (settled W env svgBasicNames 1) = mset (started W env svgBasicNames)
    \<and> map (\<lambda>task. (fst task, kebabCaseName (snd task))) (started W env svgBasicNames) =
        concat (map (\<lambda>th. map (Pair th) (accessible_names W env svgBasicNames th))
                  [Fill, Outline, Twotone])
    \<and> (materialize W env task = Inr md \<longrightarrow>
         identifier md = np_identifier (snd task) \<and> theme (icon md) = fst task)
    \<and> index_line md =
        ''export { default as '' @ identifier md @ '' } from '' @ [CHR 0x27] @ ''./'' @
        theme_str (theme (icon md)) @ ''/'' @ identifier md @ [CHR 0x27] @ '';'' @ [CHR 0x0A]
    \<and> indexFile W env indexTsTemplate svgBasicNames =
        (case prettier_format W (prettier (options env))
                (js_replace (EXPORT_DEFAULT_COMPONENT_FROM_DIR (constants W))
                   (concat (map index_line mds)) indexTsTemplate) of
           Inl e \<Rightarrow> [Inl e]
         | Inr c \<Rightarrow> [Inr \<lparr>path = INDEX_OUTPUT (paths env), content = c\<rparr>])
    \<and> (sorted (map (\<lambda>task. finish W 1 (fst task) (kebabCaseName (snd task)))
                  (started W env svgBasicNames)) \<longrightarrow>
         settled W env svgBasicNames 1 = started W env svgBasicNames)"
proof -
  have "map Inr mds = map (materialize W env) (settled W env svgBasicNames 1)"
    using delivered_all [OF assms] by (simp add: svgMetaDataWithTheme_def)
  moreover have "indexFile W env indexTsTemplate svgBasicNames =
        (case prettier_format W (prettier (options env))
                (js_replace (EXPORT_DEFAULT_COMPONENT_FROM_DIR (constants W))
                   (concat (map index_line mds)) indexTsTemplate) of
           Inl e \<Rightarrow> [Inl e]
         | Inr c \<Rightarrow> [Inr \<lparr>path = INDEX_OUTPUT (paths env), content = c\<rparr>])"
    using assms by (simp add: indexFile_def index_content_concat)
  ultimately show ?thesis
    using materialize_fields [of W env task md]
    by (simp add: mset_settled started_names settled_in_order index_line_def)
qed

theorem index_lines_follow_the_settling_order_witness:
  "delivered (svgMetaDataWithTheme (example_world home_first []) example_env [''home'', ''user''] 1) =
     ([\<lparr>identifier = ''HomeFill'',
        icon = \<lparr>name = ''home'', theme = Fill, node = AbstractNode ''svg'' [] []\<rparr>\<rparr>,
       \<lparr>identifier = ''UserFill'',
        icon = \<lparr>name = ''user'', theme = Fill, node = AbstractNode ''svg'' [] []\<rparr>\<rparr>], None)
   \<and> indexFile (example_world home_first []) example_env ''<% EXPORTS %>'' [''home'', ''user''] =
     [Inr \<lparr>path = ''out/index.ts'',
           content =
             ''export { default as HomeFill } from '' @ [CHR 0x27] @ ''./fill/HomeFill'' @ [CHR 0x27] @ '';'' @ [CHR 0x0A] @
             ''export { default as UserFill } from '' @ [CHR 0x27] @ ''./fill/UserFill'' @ [CHR 0x27] @ '';'' @ [CHR 0x0A]\<rparr>]"
proof -
  have d: "delivered (svgMetaDataWithTheme (example_world home_first []) example_env [''home'', ''user''] 1) =
     ([\<lparr>identifier = ''HomeFill'',
        icon = \<lparr>name = ''home'', theme = Fill, node = AbstractNode ''svg'' [] []\<rparr>\<rparr>,
       \<lparr>identifier = ''UserFill'',
        icon = \<lparr>name = ''user'', theme = Fill, node = AbstractNode ''svg'' [] []\<rparr>\<rparr>], None)"
    by (simp add: pipeline_defs example_defs)
  show ?thesis
    using index_lines_follow_the_settling_order [OF d, of _ _ "''<% EXPORTS %>''"] d
    by (simp add: index_line_def example_defs js_replace_def)
qed

text \<open>
  Claim C1 as stated fails: with the canonical names \<^verbatim>\<open>home\<close>, \<^verbatim>\<open>user\<close> and the task of
  \<^verbatim>\<open>user\<close> settling first in the index's subscription, the line of \<^verbatim>\<open>UserFill\<close> stands
  before the line of \<^verbatim>\<open>HomeFill\<close> in the index that is written.
\<close>

theorem index_order_counterexample:
  "normalize_names (example_world user_first []) example_env = Inr [''home'', ''user'']
   \<and> outcome (build (example_world user_first []) example_env) = None
   \<and> last (written (build (example_world user_first []) example_env)) =
       \<lparr>path = ''out/index.ts'',
        content =
          ''export { default as UserFill } from '' @ [CHR 0x27] @ ''./fill/UserFill'' @ [CHR 0x27] @ '';'' @ [CHR 0x0A] @
          ''export { default as HomeFill } from '' @ [CHR 0x27] @ ''./fill/HomeFill'' @ [CHR 0x27] @ '';'' @ [CHR 0x0A]\<rparr>"
  by (simp add: pipeline_defs example_defs)

section \<open>Failure of a materialization task\<close>

lemma write_files_after_failure:
  "delivered rs = (mds, Some e) \<Longrightarrow>
   write_files W (map (\<lambda>r. case r of Inl e \<Rightarrow> Inl e | Inr md \<Rightarrow> g md) rs @ rest) =
   write_files W (map g mds @ [Inl e])"
proof (induction rs arbitrary: mds rule: delivered.induct)
  case 1
  then show ?case by simp
next
  case (2 e' rs)
  then show ?case by simp
next
  case (3 x rs)
  then obtain xs where xs: "delivered rs = (xs, Some e)" "mds = x # xs"
    by (auto split: prod.splits)
  show ?case
  proof (cases "g x")
    case (Inl e')
    then show ?thesis using xs by simp
  next
    case (Inr f)
    then show ?thesis using xs "3.IH" [OF xs(1)] by (simp split: option.splits)
  qed
qed

lemma write_files_icons_then_error:
  "outcome (write_files W (map g mds @ [Inl e])) \<noteq> None \<and>
   (\<exists>n \<le> length mds.
      map Inr (written (write_files W (map g mds @ [Inl e]))) = take n (map g mds) \<and>
      ((\<forall>md \<in> set mds. \<exists>f. g md = Inr f \<and> writeFile W (path f) (content f) = None) \<longrightarrow>
       n = length mds))"
proof (induction mds)
  case Nil
  then show ?case by simp
next
  case (Cons md mds)
  show ?case
  proof (cases "g md")
    case (Inl e')
    then show ?thesis by auto
  next
    case (Inr f)
    show ?thesis
    proof (cases "writeFile W (path f) (content f)")
      case None
      from Cons obtain n where n: "n \<le> length mds"
        "map Inr (written (write_files W (map g mds @ [Inl e]))) = take n (map g mds)"
        "(\<forall>md \<in> set mds. \<exists>f. g md = Inr f \<and> writeFile W (path f) (content f) = None) \<longrightarrow>
           n = length mds"
        by blast
      have "Suc n \<le> length (md # mds)" using n(1) by simp
      moreover have "map Inr (written (write_files W (map g (md # mds) @ [Inl e]))) =
          take (Suc n) (map g (md # mds))"
        using Inr None n(2) by (simp add: Let_def)
      moreover have "(\<forall>md' \<in> set (md # mds). \<exists>f. g md' = Inr f \<and> writeFile W (path f) (content f) = None)
          \<longrightarrow> Suc n = length (md # mds)"
        using n(3) by simp
      moreover have "outcome (write_files W (map g (md # mds) @ [Inl e])) \<noteq> None"
        using Inr None Cons by (simp add: Let_def)
      ultimately show ?thesis by blast
    next
      case (Some e')
      have "map Inr (written (write_files W (map g (md # mds) @ [Inl e]))) =
          take (Suc 0) (map g (md # mds))"
        using Inr Some by simp
      moreover have "outcome (write_files W (map g (md # mds) @ [Inl e])) \<noteq> None"
        using Inr Some by simp
      moreover have "\<not> (\<forall>md' \<in> set (md # mds). \<exists>f. g md' = Inr f \<and> writeFile W (path f) (content f) = None)"
        using Inr Some by auto
      ultimately show ?thesis
        by (metis Suc_leI length_Cons zero_less_Suc)
    qed
  qed
qed

text \<open>
  Claim C2, amended. When a materialization task fails (reading, optimizing or parsing
  its source), the run is rejected, and what has been written are icon modules only: those
  of the first \<open>n\<close> icons that were delivered before the first failure, and of all of them
  when formatting and writing them succeeds. The manifest and the index are not written.
\<close>

theorem failed_materialization_stops_the_run:
  assumes "clear W env = None"
    and "normalize_names W env = Inr svgBasicNames"
    and "readFile W (ICON_TEMPLATE (paths env)) = Inr iconTsTemplate"
    and "readFile W (TWO_TONE_ICON_TEMPLATE (paths env)) = Inr twoToneIconTsTemplate"
    and "readFile W (INDEX_TEMPLATE (paths env)) = Inr indexTsTemplate"
    and "readFile W (MANIFEST_TEMPLATE (paths env)) = Inr manifestTsTemplate"
    and "\<exists>task \<in> set (started W env svgBasicNames). isl (materialize W env task)"
  shows "outcome (build W env) \<noteq> None \<and>
    (\<exists>mds e n.
       delivered (svgMetaDataWithTheme W env svgBasicNames 0) = (mds, Some e) \<and>
       n \<le> length mds \<and>
       map Inr (written (build W env)) =
         take n (map (icon_file W env iconTsTemplate twoToneIconTsTemplate) mds) \<and>
       ((\<forall>md \<in> set mds. \<exists>f. icon_file W env iconTsTemplate twoToneIconTsTemplate md = Inr f \<and>
                                writeFile W (path f) (content f) = None) \<longrightarrow>
        n = length mds))"
proof -
  have "\<exists>r \<in> set (svgMetaDataWithTheme W env svgBasicNames 0). isl r"
    using assms(7) by (simp add: svgMetaDataWithTheme_def set_settled)
  then obtain mds e where d: "delivered (svgMetaDataWithTheme W env svgBasicNames 0) = (mds, Some e)"
    using delivered_error by blast
  have "build W env =
      write_files W (files W env iconTsTemplate twoToneIconTsTemplate indexTsTemplate
                       manifestTsTemplate svgBasicNames)"
    using assms(1-6) by (simp add: build_def)
  also have "\<dots> = write_files W (map (icon_file W env iconTsTemplate twoToneIconTsTemplate) mds @ [Inl e])"
    unfolding files_def iconFiles_def by (rule write_files_after_failure [OF d])
  finally show ?thesis
    using d write_files_icons_then_error [of W "icon_file W env iconTsTemplate twoToneIconTsTemplate" mds e]
    by auto
qed

theorem failed_materialization_stops_the_run_witness:
  "isl (materialize (example_world home_first [''svg/fill/user.svg'']) example_env
          (Fill, \<lparr>kebabCaseName = ''user'', np_identifier = ''UserFill''\<rparr>))
   \<and> outcome (build (example_world home_first [''svg/fill/user.svg'']) example_env) \<noteq> None"
proof -
  let ?W = "example_world home_first [''svg/fill/user.svg'']"
  have m: "isl (materialize ?W example_env (Fill, \<lparr>kebabCaseName = ''user'', np_identifier = ''UserFill''\<rparr>))"
    by (simp add: pipeline_defs example_defs)
  have s: "(Fill, \<lparr>kebabCaseName = ''user'', np_identifier = ''UserFill''\<rparr>)
             \<in> set (started ?W example_env [''home'', ''user''])"
    by (simp add: pipeline_defs example_defs)
  have "outcome (build ?W example_env) \<noteq> None"
    using failed_materialization_stops_the_run
      [of ?W example_env "[''home'', ''user'']" "''<% ID %> = <% JSON %>''"
          "''<% ID %> = <% GETTER %> <% NAME %> <% THEME %>''" "''<% EXPORTS %>''" "''<% MANIFEST %>''"]
      m s
    by (auto simp: example_defs)
  with m show ?thesis by simp
qed

text \<open>
  Claim C2 as stated fails: the optimizer rejects \<^verbatim>\<open>user.svg\<close>, the run is rejected with
  that error, and the module of \<^verbatim>\<open>HomeFill\<close>, whose task settled before, has been written.
\<close>

theorem write_before_failure_counterexample:
  "svgo_optimize (example_world home_first [''svg/fill/user.svg''])
      (optimizer example_env Fill) ''svg/fill/user.svg'' = Inl (Error ''unclosed tag'')
   \<and> outcome (build (example_world home_first [''svg/fill/user.svg'']) example_env) =
       Some (Error ''unclosed tag'')
   \<and> map path (written (build (example_world home_first [''svg/fill/user.svg'']) example_env)) =
       [''out/fill/./HomeFill.ts'']"
  by (simp add: pipeline_defs example_defs)

section \<open>A missing source file\<close>

lemma name_and_path_readFile [simp]: "name_and_path (W\<lparr>readFile := rf\<rparr>) = name_and_path W"
  by (simp add: fun_eq_iff name_and_path_def)

lemma started_readFile [simp]: "started (W\<lparr>readFile := rf\<rparr>) env ns = started W env ns"
  by (simp add: started_def theme_tasks_def svg_file_def)

lemma settled_readFile [simp]: "settled (W\<lparr>readFile := rf\<rparr>) env ns k = settled W env ns k"
  by (simp add: settled_def)

lemma write_files_readFile [simp]: "write_files (W\<lparr>readFile := rf\<rparr>) fs = write_files W fs"
  by (induction fs rule: write_files.induct[where ?a0.0 = W]) (simp_all split: option.splits)

lemma icon_file_readFile [simp]:
  "icon_file (W\<lparr>readFile := rf\<rparr>) env t1 t2 md = icon_file W env t1 t2 md"
  by (simp add: icon_file_def Let_def cong: if_cong sum.case_cong)

lemma manifestFile_readFile [simp]:
  "manifestFile (W\<lparr>readFile := rf\<rparr>) env t ns = manifestFile W env t ns"
  by (simp add: manifestFile_def manifest_def accessible_names_def svg_file_def cong: sum.case_cong)





section \<open>The optimizer of the single-colour themes\<close>

text \<open>
  Claim C8. The optimizer of \<^verbatim>\<open>fill\<close> and \<^verbatim>\<open>outline\<close> is the configured one with the plugin
  \<^verbatim>\<open>removeAttrs\<close> for \<^verbatim>\<open>fill\<close> appended; the optimizer of \<^verbatim>\<open>twotone\<close> is the configured one as
  it is, and a twotone icon is the tree of what that optimizer returns. Given the contract
  of the plugin (an optimizer that has it yields markup whose tree has no \<^verbatim>\<open>fill\<close>
  attribute), no node of an icon materialized under \<^verbatim>\<open>fill\<close> or \<^verbatim>\<open>outline\<close> has one.
\<close>

theorem single_colour_icons_have_no_fill:
  assumes "\<And>opts raw data nm t.
             removeAttrs [''fill''] \<in> set (plugins opts) \<Longrightarrow> svgo_optimize W opts raw = Inr data \<Longrightarrow>
             abstract_tree W data nm = Inr t \<Longrightarrow> no_fill t"
  shows "(th \<in> {Fill, Outline} \<and> materialize W env (th, np) = Inr md \<longrightarrow> no_fill (node (icon md)))
    \<and> optimizer env Fill = (svgo (options env))\<lparr>plugins := plugins (svgo (options env)) @ [removeAttrs [''fill'']]\<rparr>
    \<and> optimizer env Outline = optimizer env Fill
    \<and> optimizer env Twotone = svgo (options env)
    \<and> (materialize W env (Twotone, np) = Inr md \<longrightarrow>
        (\<exists>raw data. readFile W (svg_file W env Twotone (kebabCaseName np)) = Inr raw \<and>
           svgo_optimize W (svgo (options env)) raw = Inr data \<and>
           abstract_tree W data (kebabCaseName np) = Inr (node (icon md))))"
proof -
  have "no_fill (node (icon md))"
    if single: "th \<in> {Fill, Outline}" and ok: "materialize W env (th, np) = Inr md"
  proof -
    have o: "optimizer env th = svgoForSingleIcon env"
      using single by (auto simp: optimizer_def singleType_def)
    obtain raw data t where
      "svgo_optimize W (svgoForSingleIcon env) raw = Inr data"
      "abstract_tree W data (kebabCaseName np) = Inr t" "node (icon md) = t"
      using ok by (auto simp: materialize_def o split: sum.splits)
    moreover have "removeAttrs [''fill''] \<in> set (plugins (svgoForSingleIcon env))"
      by (simp add: svgoForSingleIcon_def)
    ultimately show ?thesis using assms by blast
  qed
  moreover have "\<exists>raw data. readFile W (svg_file W env Twotone (kebabCaseName np)) = Inr raw \<and>
           svgo_optimize W (svgo (options env)) raw = Inr data \<and>
           abstract_tree W data (kebabCaseName np) = Inr (node (icon md))"
    if "materialize W env (Twotone, np) = Inr md"
    using that by (auto simp: materialize_def optimizer_def singleType_def split: sum.splits)
  ultimately show ?thesis
    by (simp add: optimizer_def singleType_def svgoForSingleIcon_def)
qed

end
